theory Spec2Isabelle
  imports Complex_Main
begin

section \<open>Values, messages and the observable world\<close>

text \<open>
  The intent service of \<^verbatim>\<open>src/ovos_core/intent_services/__init__.py\<close> works on bus
  messages whose \<^verbatim>\<open>data\<close> and \<^verbatim>\<open>context\<close> are dictionaries from strings to JSON-like
  Python values. Floating point values are left out of \<open>pyval\<close>; no handler of this file
  computes with them.
\<close>

datatype pyval =
    PNone
  | PBool bool
  | PInt int
  | PStr string
  | PList "pyval list"
  | PDict "(string \<times> pyval) list"

type_synonym dict = "string \<rightharpoonup> pyval"

text \<open>Python truthiness, as \<^verbatim>\<open>if x:\<close> and \<^verbatim>\<open>x or y\<close> test it.\<close>

fun truthy :: "pyval \<Rightarrow> bool" where
  "truthy PNone = False"
| "truthy (PBool b) = b"
| "truthy (PInt i) = (i \<noteq> 0)"
| "truthy (PStr s) = (s \<noteq> [])"
| "truthy (PList xs) = (xs \<noteq> [])"
| "truthy (PDict kvs) = (kvs \<noteq> [])"

text \<open>\<^verbatim>\<open>d.get(k) or ''\<close>: a missing key reads as \<^verbatim>\<open>None\<close>, and every falsy value is
  replaced by the empty string.\<close>

definition get_or_empty :: "dict \<Rightarrow> string \<Rightarrow> pyval" where
  "get_or_empty d k =
     (case d k of
        None \<Rightarrow> PStr []
      | Some v \<Rightarrow> if truthy v then v else PStr [])"

text \<open>\<^verbatim>\<open>if s:\<close> on an optional string attribute (\<^verbatim>\<open>None\<close> and \<^verbatim>\<open>''\<close> are falsy).\<close>

fun truthy_str :: "string option \<Rightarrow> bool" where
  "truthy_str None = False"
| "truthy_str (Some s) = (s \<noteq> [])"

record message =
  msg_type :: string
  msg_data :: dict
  msg_context :: dict

text \<open>The values \<^verbatim>\<open>except Exception\<close> catches. \<open>KeyError k\<close> is the failed lookup
  \<^verbatim>\<open>matchers[k]\<close>; \<open>Raised s\<close> is any exception raised inside a collaborator.
  Interpreter exit signals (\<^verbatim>\<open>KeyboardInterrupt\<close>, \<^verbatim>\<open>SystemExit\<close>) are not exceptions in
  this sense and are not modelled.\<close>

datatype exn = KeyError string | Raised string

text \<open>What the handlers write to \<^verbatim>\<open>LOG\<close>, one constructor per logging call.\<close>

datatype log_entry =
    Debug_utterances_transformed pyval pyval
  | Info_replaced_lang string string string
  | Warning_ignoring_lang string string
  | Warning_padatious_unavailable
  | Exception_setup_locale string
  | Debug_matching_took
  | Exception_logged exn

text \<open>The IntentMatch named tuple (lines 43-46). A named tuple of five fields is always
  truthy, so \<^verbatim>\<open>if match:\<close> is the test for \<open>Some\<close>.\<close>

record IntentMatch =
  intent_service :: string
  intent_type :: "string option"
  intent_data :: dict
  skill_id :: "string option"
  utterance :: string

text \<open>A context entry, the \<^verbatim>\<open>entity\<close> dictionary built by \<^verbatim>\<open>handle_add_context\<close>:
  keys \<^verbatim>\<open>confidence\<close>, \<^verbatim>\<open>data\<close>, \<^verbatim>\<open>match\<close>, \<^verbatim>\<open>key\<close>, \<^verbatim>\<open>origin\<close>.\<close>

record entity =
  ent_confidence :: real
  ent_data :: "(string \<times> pyval) list"
  ent_match :: string
  ent_key :: string
  ent_origin :: pyval

text \<open>The session record of the spec's data model (section 3): identifier, language,
  active-skill stack (most recently activated first), Context Stack, pipeline (the ordered
  stage names) and expiry deadline.\<close>

record session =
  session_id :: string
  lang :: string
  active_skills :: "(string \<times> int) list"
  context_stack :: "entity list"
  pipeline :: "string list"
  expiry_deadline :: int

text \<open>What is published on the bus: a message handed to \<^verbatim>\<open>bus.emit\<close>, or the resync
  broadcast of the default session (its serialized record).\<close>

datatype event = Published message | Session_resync "pyval option"

text \<open>The state the handlers read and write: the session store (one record per session
  id), the events published so far, the log, the clock, and \<open>ext\<close>, the private state of
  the collaborators (interpreters, transformer plugins).\<close>

record 'x world =
  sessions :: "string \<rightharpoonup> session"
  bus :: "event list"
  logged :: "log_entry list"
  now :: int
  ext :: 'x

section \<open>Collaborators\<close>

text \<open>An interpreter stage, \<^verbatim>\<open>match_func(utterances, lang, message)\<close>: it returns a match
  or \<^verbatim>\<open>None\<close>, or raises; it may change the message and the world either way.\<close>

type_synonym 'x stage =
  "pyval \<Rightarrow> string \<Rightarrow> message \<Rightarrow> 'x world \<Rightarrow> (exn + IntentMatch option) \<times> message \<times> 'x world"

text \<open>An object with the three matcher methods: \<^verbatim>\<open>PadatiousMatcher\<close> and
  \<^verbatim>\<open>PadaciosoService\<close> alike.\<close>

record 'x matcher =
  match_high :: "'x stage"
  match_medium :: "'x stage"
  match_low :: "'x stage"

text \<open>The attributes of \<^verbatim>\<open>IntentService\<close> that \<^verbatim>\<open>get_pipeline\<close> reads.
  \<open>padatious_service\<close> is \<open>None\<close> when padatious is not installed (lines 65-69).\<close>

record 'x services =
  converse_with_skills :: "'x stage"
  padatious_service :: "'x matcher option"
  padacioso_service :: "'x matcher"
  adapt_match_intent :: "'x stage"
  common_qa_match :: "'x stage"
  fallback_high_prio :: "'x stage"
  fallback_medium_prio :: "'x stage"
  fallback_low_prio :: "'x stage"

text \<open>Everything the source imports from other packages and calls as a function, taken as
  a parameter: the language helpers of \<^verbatim>\<open>ovos_config.locale\<close> and
  \<^verbatim>\<open>ovos_bus_client.util\<close>, the two transformer services, \<^verbatim>\<open>Session.serialize\<close>, the
  builtin \<^verbatim>\<open>str\<close>, the \<^verbatim>\<open>sounds\<close> section of the configuration, the routing context of
  \<^verbatim>\<open>Message.reply\<close>, and the values a newly created session starts with.\<close>

record 'x env =
  get_message_lang :: "message \<Rightarrow> string"
  get_valid_languages :: "string list"
  get_full_lang_code :: "pyval \<Rightarrow> string"
  utterance_transform :: "pyval \<Rightarrow> dict \<Rightarrow> 'x world \<Rightarrow> (exn + pyval \<times> dict) \<times> 'x world"
  metadata_transform :: "dict \<Rightarrow> 'x world \<Rightarrow> (exn + dict) \<times> 'x world"
  setup_locale :: "string \<Rightarrow> 'x world \<Rightarrow> exn option \<times> 'x world"
  serialize :: "session \<Rightarrow> pyval"
  py_str :: "pyval \<Rightarrow> string"
  config_sounds :: "dict option"
  reply_context :: "dict \<Rightarrow> dict"
  default_lang :: string
  default_pipeline :: "string list"
  session_ttl :: int
  services :: "'x services"

section \<open>Language disambiguation (lines 175-198)\<close>

definition lang_keys :: "string list" where
  "lang_keys = [''stt_lang'', ''request_lang'', ''detected_lang'']"

text \<open>The \<^verbatim>\<open>for k in lang_keys\<close> loop. The result is the language returned and the log
  entries written on the way.\<close>

fun lang_loop ::
  "'x env \<Rightarrow> string \<Rightarrow> dict \<Rightarrow> string list \<Rightarrow> string \<times> log_entry list" where
  "lang_loop e dflt ctx [] = (dflt, [])"
| "lang_loop e dflt ctx (k # ks) =
     (case ctx k of
        None \<Rightarrow> lang_loop e dflt ctx ks
      | Some c \<Rightarrow>
          (let v = get_full_lang_code e c in
           if v \<in> set (get_valid_languages e)
           then (v, if v \<noteq> dflt then [Info_replaced_lang dflt k v] else [])
           else (case lang_loop e dflt ctx ks of
                   (r, lg) \<Rightarrow> (r, Warning_ignoring_lang k v # lg))))"

definition disambiguate_lang :: "'x env \<Rightarrow> message \<Rightarrow> string \<times> log_entry list" where
  "disambiguate_lang e m = lang_loop e (get_message_lang e m) (msg_context m) lang_keys"

section \<open>The session store\<close>

text \<open>Modelled from the spec: \<^verbatim>\<open>SessionManager\<close> and \<^verbatim>\<open>Session\<close> (package
  \<^verbatim>\<open>ovos_bus_client\<close>) are not under src/. Section 6 of the spec: the optional
  \<^verbatim>\<open>context.session_id\<close> addresses the session, the default id is used if none is present.\<close>

definition session_id_of :: "message option \<Rightarrow> string" where
  "session_id_of mo =
     (case mo of
        None \<Rightarrow> ''default''
      | Some m \<Rightarrow>
          (case msg_context m ''session_id'' of
             Some (PStr s) \<Rightarrow> s
           | _ \<Rightarrow> ''default''))"

text \<open>Modelled from the spec: a record as it is lazily created (section 3): no active
  skill, an empty Context Stack, the system's default stage order, a fresh deadline.\<close>

definition fresh_session :: "'x env \<Rightarrow> string \<Rightarrow> int \<Rightarrow> session" where
  "fresh_session e sid t =
     \<lparr>session_id = sid, lang = default_lang e, active_skills = [], context_stack = [],
      pipeline = default_pipeline e, expiry_deadline = t + session_ttl e\<rparr>"

text \<open>Modelled from the spec: \<^verbatim>\<open>SessionManager.get(message)\<close>, the operation
  \<^verbatim>\<open>resolve(event)\<close> of section 4.2: locate or lazily create the record addressed by the
  event's session id.\<close>

definition SessionManager_get ::
  "'x env \<Rightarrow> message option \<Rightarrow> 'x world \<Rightarrow> session \<times> 'x world" where
  "SessionManager_get e mo w =
     (let sid = session_id_of mo in
      case sessions w sid of
        Some s \<Rightarrow> (s, w)
      | None \<Rightarrow>
          (let s = fresh_session e sid (now w)
           in (s, w\<lparr>sessions := (sessions w)(sid \<mapsto> s)\<rparr>)))"

text \<open>Modelled from the spec: \<^verbatim>\<open>SessionManager.reset_default_session()\<close>: the default
  session is replaced by a fresh record (section 3, lifecycle).\<close>

definition reset_default_session :: "'x env \<Rightarrow> 'x world \<Rightarrow> session \<times> 'x world" where
  "reset_default_session e w =
     (let s = fresh_session e ''default'' (now w)
      in (s, w\<lparr>sessions := (sessions w)(''default'' \<mapsto> s)\<rparr>))"

text \<open>Modelled from the spec: \<^verbatim>\<open>SessionManager.update(sess)\<close> persists the record under
  its id.\<close>

definition SessionManager_update :: "session \<Rightarrow> 'x world \<Rightarrow> 'x world" where
  "SessionManager_update s w = w\<lparr>sessions := (sessions w)(session_id s \<mapsto> s)\<rparr>"

text \<open>Modelled from the spec: \<^verbatim>\<open>SessionManager.sync(message)\<close> publishes one resync
  broadcast carrying the full serialized default session (section 6).\<close>

definition SessionManager_sync :: "'x env \<Rightarrow> message \<Rightarrow> 'x world \<Rightarrow> 'x world" where
  "SessionManager_sync e m w =
     w\<lparr>bus := bus w @ [Session_resync (map_option (serialize e) (sessions w ''default''))]\<rparr>"

text \<open>Modelled from the spec: \<^verbatim>\<open>sess.expired()\<close>: the deadline has elapsed.\<close>

definition expired :: "session \<Rightarrow> 'x world \<Rightarrow> bool" where
  "expired s w = (expiry_deadline s < now w)"

text \<open>Modelled from the spec: \<^verbatim>\<open>sess.touch()\<close> refreshes the deadline. The session object
  is the one the store holds, so the store sees the new deadline.\<close>

definition touch :: "'x env \<Rightarrow> session \<Rightarrow> 'x world \<Rightarrow> session \<times> 'x world" where
  "touch e s w =
     (let s' = s\<lparr>expiry_deadline := now w + session_ttl e\<rparr>
      in (s', w\<lparr>sessions := (sessions w)(session_id s \<mapsto> s')\<rparr>))"

text \<open>Modelled from the spec: \<^verbatim>\<open>ConverseService.activate_skill(skill_id, message)\<close>
  (\<^verbatim>\<open>ovos_core.intent_services.converse_service\<close>, not under src/), the operation
  \<^verbatim>\<open>activate_skill\<close> of section 4.2: push the skill with the current time to the front of
  the active-skill stack, removing any prior occurrence of the same id.\<close>

definition activate_skill :: "'x env \<Rightarrow> string \<Rightarrow> message \<Rightarrow> 'x world \<Rightarrow> 'x world" where
  "activate_skill e sid m w =
     (case SessionManager_get e (Some m) w of
        (s, w1) \<Rightarrow>
          w1\<lparr>sessions := (sessions w1)(session_id s \<mapsto>
                s\<lparr>active_skills := (sid, now w1) # filter (\<lambda>a. fst a \<noteq> sid) (active_skills s)\<rparr>)\<rparr>)"

text \<open>Modelled from the spec: the Context Stack operations of \<^verbatim>\<open>sess.context\<close> (section 3):
  entries are kept in insertion order, most recent first, and are addressed for removal by
  key or tag, the tags of an entry being the second components of its data pairs.\<close>

definition inject_context :: "entity \<Rightarrow> session \<Rightarrow> 'x world \<Rightarrow> 'x world" where
  "inject_context en s w =
     w\<lparr>sessions := (sessions w)(session_id s \<mapsto> s\<lparr>context_stack := en # context_stack s\<rparr>)\<rparr>"

definition addressed_by :: "pyval \<Rightarrow> entity \<Rightarrow> bool" where
  "addressed_by c en = (c = PStr (ent_key en) \<or> c \<in> set (map snd (ent_data en)))"

definition remove_context :: "pyval \<Rightarrow> session \<Rightarrow> 'x world \<Rightarrow> 'x world" where
  "remove_context c s w =
     w\<lparr>sessions := (sessions w)(session_id s \<mapsto>
          s\<lparr>context_stack := filter (\<lambda>en. \<not> addressed_by c en) (context_stack s)\<rparr>)\<rparr>"

definition clear_context :: "session \<Rightarrow> 'x world \<Rightarrow> 'x world" where
  "clear_context s w = w\<lparr>sessions := (sessions w)(session_id s \<mapsto> s\<lparr>context_stack := []\<rparr>)\<rparr>"

text \<open>Modelled from the spec: \<^verbatim>\<open>Message.forward\<close> and \<^verbatim>\<open>Message.reply\<close>
  (\<^verbatim>\<open>ovos_bus_client.message\<close>, not under src/). Both build a new message of the given type
  and data; a forwarded message carries the context of the message it comes from
  (sections 4.4 and 6), a reply the routing context the bus client derives from it.\<close>

definition forward :: "message \<Rightarrow> string \<Rightarrow> dict \<Rightarrow> message" where
  "forward m t d = \<lparr>msg_type = t, msg_data = d, msg_context = msg_context m\<rparr>"

definition reply :: "'x env \<Rightarrow> message \<Rightarrow> string \<Rightarrow> dict \<Rightarrow> message" where
  "reply e m t d = \<lparr>msg_type = t, msg_data = d, msg_context = reply_context e (msg_context m)\<rparr>"

section \<open>Building the pipeline (lines 200-233)\<close>

text \<open>\<^verbatim>\<open>needle in haystack\<close> on strings.\<close>

fun contains :: "string \<Rightarrow> string \<Rightarrow> bool" where
  "contains s [] = (s = [])"
| "contains s (c # cs) = (take (length s) (c # cs) = s \<or> contains s cs)"

text \<open>The \<^verbatim>\<open>matchers\<close> dictionary, in the order of the source.\<close>

definition matchers :: "'x services \<Rightarrow> 'x matcher \<Rightarrow> (string \<times> 'x stage) list" where
  "matchers svc padatious_matcher =
     [(''converse'', converse_with_skills svc),
      (''padatious_high'', match_high padatious_matcher),
      (''padacioso_high'', match_high (padacioso_service svc)),
      (''adapt'', adapt_match_intent svc),
      (''common_qa'', common_qa_match svc),
      (''fallback_high'', fallback_high_prio svc),
      (''padatious_medium'', match_medium padatious_matcher),
      (''padacioso_medium'', match_medium (padacioso_service svc)),
      (''fallback_medium'', fallback_medium_prio svc),
      (''padatious_low'', match_low padatious_matcher),
      (''padacioso_low'', match_low (padacioso_service svc)),
      (''fallback_low'', fallback_low_prio svc)]"

text \<open>\<^verbatim>\<open>[matchers[k] for k in pipeline]\<close>: the whole list is built before it is returned,
  and the first name that is not a key raises \<^verbatim>\<open>KeyError\<close>.\<close>

fun resolve_stages :: "(string \<times> 'x stage) list \<Rightarrow> string list \<Rightarrow> exn + 'x stage list" where
  "resolve_stages reg [] = Inr []"
| "resolve_stages reg (k # ks) =
     (case map_of reg k of
        None \<Rightarrow> Inl (KeyError k)
      | Some f \<Rightarrow>
          (case resolve_stages reg ks of
             Inl err \<Rightarrow> Inl err
           | Inr fs \<Rightarrow> Inr (f # fs)))"

definition get_pipeline ::
  "'x env \<Rightarrow> string list option \<Rightarrow> session option \<Rightarrow> 'x world
     \<Rightarrow> (exn + 'x stage list) \<times> 'x world" where
  "get_pipeline e skips sess_arg w =
     (case (case sess_arg of
              Some s \<Rightarrow> (s, w)
            | None \<Rightarrow> SessionManager_get e None w) of
        (sess, w1) \<Rightarrow>
          (case (case padatious_service (services e) of
                   None \<Rightarrow>
                     (padacioso_service (services e),
                      if list_ex (contains ''padatious'') (pipeline sess)
                      then w1\<lparr>logged := logged w1 @ [Warning_padatious_unavailable]\<rparr>
                      else w1)
                 | Some pm \<Rightarrow> (pm, w1)) of
             (padatious_matcher, w2) \<Rightarrow>
               (resolve_stages (matchers (services e) padatious_matcher)
                  (filter (\<lambda>k. k \<notin> set (case skips of None \<Rightarrow> [] | Some ks \<Rightarrow> ks))
                     (pipeline sess)),
                w2)))"

section \<open>Session validation (lines 235-254)\<close>

definition validate_session ::
  "'x env \<Rightarrow> message \<Rightarrow> string \<Rightarrow> 'x world \<Rightarrow> session \<times> 'x world" where
  "validate_session e m lg w =
     (case SessionManager_get e (Some m) w of
        (sess, w1) \<Rightarrow>
          (case (if session_id sess = ''default''
                 then (case (if expired sess w1
                             then (case reset_default_session e w1 of
                                     (s, w') \<Rightarrow> (s, w', True))
                             else (sess, w1, False)) of
                         (s2, w2, upd) \<Rightarrow>
                           (case (if lg \<noteq> lang s2
                                  then (s2\<lparr>lang := lg\<rparr>, True)
                                  else (s2, upd)) of
                              (s3, updated) \<Rightarrow>
                                (s3, if updated
                                     then SessionManager_sync e m (SessionManager_update s3 w2)
                                     else w2)))
                 else (let s2 = sess\<lparr>lang := lg\<rparr> in (s2, SessionManager_update s2 w1))) of
             (s4, w4) \<Rightarrow> touch e s4 w4))"

section \<open>The utterance handler (lines 160-173 and 256-353)\<close>

text \<open>\<^verbatim>\<open>_handle_transformers\<close>. The comparison \<^verbatim>\<open>original != utterances\<close> is structural:
  utterances are lists of strings.\<close>

definition handle_transformers ::
  "'x env \<Rightarrow> message \<Rightarrow> 'x world \<Rightarrow> (exn + message) \<times> 'x world" where
  "handle_transformers e m w =
     (let original = (case msg_data m ''utterances'' of None \<Rightarrow> PList [] | Some v \<Rightarrow> v);
          m1 = m\<lparr>msg_context := (msg_context m)(''lang'' \<mapsto> PStr (get_message_lang e m))\<rparr>
      in case utterance_transform e original (msg_context m1) w of
           (Inl err, w1) \<Rightarrow> (Inl err, w1)
         | (Inr (utts, ctx), w1) \<Rightarrow>
             (case (if original \<noteq> utts
                    then (m1\<lparr>msg_context := ctx, msg_data := (msg_data m1)(''utterances'' \<mapsto> utts)\<rparr>,
                          w1\<lparr>logged := logged w1 @ [Debug_utterances_transformed original utts]\<rparr>)
                    else (m1\<lparr>msg_context := ctx\<rparr>, w1)) of
                (m2, w2) \<Rightarrow>
                  (case metadata_transform e (msg_context m2) w2 of
                     (Inl err, w3) \<Rightarrow> (Inl err, w3)
                   | (Inr ctx', w3) \<Rightarrow> (Inr (m2\<lparr>msg_context := ctx'\<rparr>), w3))))"

text \<open>Lines 285-302 of \<^verbatim>\<open>handle_utterance\<close>: transformers, language, locale (whose failure
  is caught and logged on the spot), utterances, session, and the session stamped into the
  message context. \<open>Inl\<close> is an exception on its way to the outer \<^verbatim>\<open>except\<close>, with the world
  as it was when it was raised.\<close>

definition prepare ::
  "'x env \<Rightarrow> message \<Rightarrow> 'x world
     \<Rightarrow> (exn \<times> 'x world) + (string \<times> pyval \<times> session \<times> message \<times> 'x world)" where
  "prepare e m w =
     (case handle_transformers e m w of
        (Inl err, w1) \<Rightarrow> Inl (err, w1)
      | (Inr m1, w1) \<Rightarrow>
          (case disambiguate_lang e m1 of
             (lg, entries) \<Rightarrow>
               (let w2 = w1\<lparr>logged := logged w1 @ entries\<rparr>;
                    w3 = (case setup_locale e lg w2 of
                            (Some err, w') \<Rightarrow> w'\<lparr>logged := logged w' @ [Exception_setup_locale lg]\<rparr>
                          | (None, w') \<Rightarrow> w');
                    utts = (case msg_data m1 ''utterances'' of None \<Rightarrow> PList [] | Some v \<Rightarrow> v)
                in case validate_session e m1 lg w3 of
                     (sess, w4) \<Rightarrow>
                       Inr (lg, utts, sess,
                            m1\<lparr>msg_context := (msg_context m1)(''session'' \<mapsto> serialize e sess)\<rparr>,
                            w4))))"

text \<open>The matching loop (lines 307-311). Beside the outcome, the message and the world it
  returns the number of stages it has called.\<close>

fun run_pipeline ::
  "'x stage list \<Rightarrow> pyval \<Rightarrow> string \<Rightarrow> message \<Rightarrow> 'x world
     \<Rightarrow> (exn + IntentMatch option) \<times> nat \<times> message \<times> 'x world" where
  "run_pipeline [] utts lg m w = (Inr None, 0, m, w)"
| "run_pipeline (f # fs) utts lg m w =
     (case f utts lg m w of
        (Inl err, m1, w1) \<Rightarrow> (Inl err, 1, m1, w1)
      | (Inr (Some r), m1, w1) \<Rightarrow> (Inr (Some r), 1, m1, w1)
      | (Inr None, m1, w1) \<Rightarrow>
          (case run_pipeline fs utts lg m1 w1 of
             (res, n, m2, w2) \<Rightarrow> (res, Suc n, m2, w2)))"

text \<open>Lines 304-311: the list of stages is built first, then the loop runs over it.\<close>

definition match_utterance ::
  "'x env \<Rightarrow> session \<Rightarrow> pyval \<Rightarrow> string \<Rightarrow> message \<Rightarrow> 'x world
     \<Rightarrow> (exn + IntentMatch option) \<times> nat \<times> message \<times> 'x world" where
  "match_utterance e sess utts lg m w =
     (case get_pipeline e None (Some sess) w of
        (Inl err, w1) \<Rightarrow> (Inl err, 0, m, w1)
      | (Inr stages, w1) \<Rightarrow> run_pipeline stages utts lg m w1)"

text \<open>\<^verbatim>\<open>Configuration().get('sounds', {}).get('error', "snd/error.mp3")\<close> (line 351).\<close>

definition error_sound :: "'x env \<Rightarrow> pyval" where
  "error_sound e =
     (case (case config_sounds e of None \<Rightarrow> Map.empty | Some d \<Rightarrow> d) ''error'' of
        None \<Rightarrow> PStr ''snd/error.mp3''
      | Some v \<Rightarrow> v)"

text \<open>\<^verbatim>\<open>send_complete_intent_failure\<close> (lines 345-353).\<close>

definition send_complete_intent_failure :: "'x env \<Rightarrow> message \<Rightarrow> 'x world \<Rightarrow> 'x world" where
  "send_complete_intent_failure e m w =
     w\<lparr>bus := bus w @
           [Published (forward m ''mycroft.audio.play_sound'' [''uri'' \<mapsto> error_sound e]),
            Published (forward m ''complete_intent_failure'' Map.empty)]\<rparr>"

text \<open>Lines 313-340: what the handler does with the outcome of the matching loop, and
  the value it returns (the match and the message context; the stopwatch is left out).\<close>

definition emit_result ::
  "'x env \<Rightarrow> session \<Rightarrow> IntentMatch option \<Rightarrow> message \<Rightarrow> 'x world
     \<Rightarrow> (IntentMatch option \<times> dict) \<times> 'x world" where
  "emit_result e sess mt m w =
     (let w1 = w\<lparr>logged := logged w @ [Debug_matching_took]\<rparr> in
      case (case mt of
              Some r \<Rightarrow>
                (let m1 = m\<lparr>msg_data := (msg_data m)(''utterance'' \<mapsto> PStr (utterance r))\<rparr> in
                 case (case skill_id r of
                         None \<Rightarrow> (m1, w1)
                       | Some sid \<Rightarrow>
                           if sid \<noteq> []
                           then (m1\<lparr>msg_context := (msg_context m1)(''skill_id'' \<mapsto> PStr sid)\<rparr>,
                                 activate_skill e sid m1 w1)
                           else (m1, w1)) of
                   (m2, w2) \<Rightarrow>
                     (m2,
                      case intent_type r of
                        None \<Rightarrow> w2
                      | Some t \<Rightarrow>
                          if t \<noteq> []
                          then w2\<lparr>bus := bus w2 @
                                 [Published (reply e m2 t (msg_data m2 ++ intent_data r))]\<rparr>
                          else w2))
            | None \<Rightarrow> (m, send_complete_intent_failure e m w1)) of
        (m3, w3) \<Rightarrow>
          ((mt, msg_context m3),
           if session_id sess = ''default'' then SessionManager_sync e m3 w3 else w3))"

text \<open>The body of the outer \<^verbatim>\<open>try\<close> (lines 285-340).\<close>

definition handle_utterance_body ::
  "'x env \<Rightarrow> message \<Rightarrow> 'x world \<Rightarrow> (exn + IntentMatch option \<times> dict) \<times> 'x world" where
  "handle_utterance_body e m w =
     (case prepare e m w of
        Inl (err, w1) \<Rightarrow> (Inl err, w1)
      | Inr (lg, utts, sess, m1, w1) \<Rightarrow>
          (case match_utterance e sess utts lg m1 w1 of
             (Inl err, n, m2, w2) \<Rightarrow> (Inl err, w2)
           | (Inr mt, n, m2, w2) \<Rightarrow>
               (case emit_result e sess mt m2 w2 of
                  (r, w3) \<Rightarrow> (Inr r, w3))))"

text \<open>\<^verbatim>\<open>handle_utterance\<close>: the \<^verbatim>\<open>try\<close> with its \<^verbatim>\<open>except Exception\<close> (lines 342-343), which
  logs the exception and falls off the end of the function, returning \<^verbatim>\<open>None\<close>. The outcome
  \<open>Inl\<close> stands for an exception that reaches the caller.\<close>

definition handle_utterance ::
  "'x env \<Rightarrow> message \<Rightarrow> 'x world
     \<Rightarrow> (exn + (IntentMatch option \<times> dict) option) \<times> 'x world" where
  "handle_utterance e m w =
     (case handle_utterance_body e m w of
        (Inl err, w1) \<Rightarrow> (Inr None, w1\<lparr>logged := logged w1 @ [Exception_logged err]\<rparr>)
      | (Inr r, w1) \<Rightarrow> (Inr (Some r), w1))"

section \<open>The context handlers (lines 403-439)\<close>

text \<open>The entity that \<^verbatim>\<open>handle_add_context\<close> builds (lines 411-421).\<close>

definition add_context_entity :: "'x env \<Rightarrow> message \<Rightarrow> entity" where
  "add_context_entity e m =
     (let ctx = (case msg_data m ''context'' of None \<Rightarrow> PNone | Some v \<Rightarrow> v);
          word0 = get_or_empty (msg_data m) ''word'';
          origin = get_or_empty (msg_data m) ''origin'';
          word = (case word0 of PStr s \<Rightarrow> s | _ \<Rightarrow> py_str e word0)
      in \<lparr>ent_confidence = 1, ent_data = [(word, ctx)], ent_match = word, ent_key = word,
          ent_origin = origin\<rparr>)"

definition handle_add_context :: "'x env \<Rightarrow> message \<Rightarrow> 'x world \<Rightarrow> 'x world" where
  "handle_add_context e m w =
     (case SessionManager_get e (Some m) w of
        (sess, w1) \<Rightarrow> inject_context (add_context_entity e m) sess w1)"

definition handle_remove_context :: "'x env \<Rightarrow> message \<Rightarrow> 'x world \<Rightarrow> 'x world" where
  "handle_remove_context e m w =
     (case msg_data m ''context'' of
        None \<Rightarrow> w
      | Some c \<Rightarrow>
          if truthy c
          then (case SessionManager_get e (Some m) w of
                  (sess, w1) \<Rightarrow> remove_context c sess w1)
          else w)"

definition handle_clear_context :: "'x env \<Rightarrow> message \<Rightarrow> 'x world \<Rightarrow> 'x world" where
  "handle_clear_context e m w =
     (case SessionManager_get e (Some m) w of
        (sess, w1) \<Rightarrow> clear_context sess w1)"

section \<open>The claims' vocabulary\<close>

definition lang_candidates :: "'x env \<Rightarrow> dict \<Rightarrow> string list \<Rightarrow> (string \<times> string) list" where
  "lang_candidates e ctx ks =
     List.map_filter (\<lambda>k. map_option (\<lambda>c. (k, get_full_lang_code e c)) (ctx k)) ks"

definition enabled :: "'x env \<Rightarrow> string \<times> string \<Rightarrow> bool" where
  "enabled e kv = (snd kv \<in> set (get_valid_languages e))"

definition stage_registry :: "'x env \<Rightarrow> (string \<times> 'x stage) list" where
  "stage_registry e =
     matchers (services e)
       (case padatious_service (services e) of
          None \<Rightarrow> padacioso_service (services e)
        | Some pm \<Rightarrow> pm)"

fun decline_all ::
  "'x stage list \<Rightarrow> pyval \<Rightarrow> string \<Rightarrow> message \<Rightarrow> 'x world \<Rightarrow> (message \<times> 'x world) option" where
  "decline_all [] utts lg m w = Some (m, w)"
| "decline_all (f # fs) utts lg m w =
     (case f utts lg m w of
        (Inr None, m1, w1) \<Rightarrow> decline_all fs utts lg m1 w1
      | _ \<Rightarrow> None)"

definition same_but_log :: "'x world \<Rightarrow> 'x world \<Rightarrow> bool" where
  "same_but_log w w' =
     (sessions w' = sessions w \<and> bus w' = bus w \<and> now w' = now w \<and> ext w' = ext w)"

text \<open>The messages among a list of bus events, in order (resync broadcasts left out).\<close>

fun published :: "event list \<Rightarrow> message list" where
  "published [] = []"
| "published (Published p # evs) = p # published evs"
| "published (Session_resync _ # evs) = published evs"

text \<open>The resync broadcast that ends the handling of an utterance in the default
  session (lines 337-339), as a list of events.\<close>

definition final_resync :: "'x env \<Rightarrow> session \<Rightarrow> 'x world \<Rightarrow> event list" where
  "final_resync e sess w =
     (if session_id sess = ''default''
      then [Session_resync (map_option (serialize e) (sessions w ''default''))]
      else [])"

text \<open>The message context after lines 317-319: stamped with the skill id of the match when
  the match names a skill.\<close>

definition stamped_context :: "IntentMatch \<Rightarrow> message \<Rightarrow> dict" where
  "stamped_context r m =
     (case skill_id r of
        None \<Rightarrow> msg_context m
      | Some sid \<Rightarrow> if sid = [] then msg_context m else (msg_context m)(''skill_id'' \<mapsto> PStr sid))"

section \<open>Concrete inputs\<close>

fun str_of_nat :: "nat \<Rightarrow> string" where
  "str_of_nat n =
     (if n < 10 then [''0123456789'' ! n]
      else str_of_nat (n div 10) @ [''0123456789'' ! (n mod 10)])"

definition demo_str :: "pyval \<Rightarrow> string" where
  "demo_str v =
     (case v of
        PNone \<Rightarrow> ''None''
      | PBool b \<Rightarrow> (if b then ''True'' else ''False'')
      | PInt i \<Rightarrow> (if i < 0 then CHR ''-'' # str_of_nat (nat (- i)) else str_of_nat (nat i))
      | PStr s \<Rightarrow> s
      | _ \<Rightarrow> ''<object>'')"

definition stage_decline :: "unit stage" where
  "stage_decline utts lg m w = (Inr None, m, w)"

definition stage_raise :: "unit stage" where
  "stage_raise utts lg m w = (Inl (Raised ''stage fault''), m, w)"

definition lights_match :: IntentMatch where
  "lights_match =
     \<lparr>intent_service = ''Adapt'', intent_type = Some ''lights.skill:turn_on'',
      intent_data = [''room'' \<mapsto> PStr ''kitchen''], skill_id = Some ''lights.skill'',
      utterance = ''turn on the light''\<rparr>"

definition stage_intent :: "unit stage" where
  "stage_intent utts lg m w = (Inr (Some lights_match), m, w)"

definition chat_match :: IntentMatch where
  "chat_match =
     \<lparr>intent_service = ''Converse'', intent_type = None, intent_data = Map.empty,
      skill_id = Some ''chat.skill'', utterance = ''turn on the light''\<rparr>"

definition stage_handled :: "unit stage" where
  "stage_handled utts lg m w = (Inr (Some chat_match), m, w)"

definition demo_services :: "unit services" where
  "demo_services =
     \<lparr>converse_with_skills = stage_decline,
      padatious_service = None,
      padacioso_service =
        \<lparr>match_high = stage_handled, match_medium = stage_decline, match_low = stage_decline\<rparr>,
      adapt_match_intent = stage_intent,
      common_qa_match = stage_raise,
      fallback_high_prio = stage_decline,
      fallback_medium_prio = stage_decline,
      fallback_low_prio = stage_decline\<rparr>"

definition demo_env :: "unit env" where
  "demo_env =
     \<lparr>get_message_lang =
        (\<lambda>m. case msg_data m ''lang'' of Some (PStr s) \<Rightarrow> s | _ \<Rightarrow> ''en-us''),
      get_valid_languages = [''en-us'', ''es-es''],
      get_full_lang_code = (\<lambda>v. case v of PStr s \<Rightarrow> s | _ \<Rightarrow> ''en-us''),
      utterance_transform = (\<lambda>utts ctx w. (Inr (utts, ctx), w)),
      metadata_transform = (\<lambda>ctx w. (Inr ctx, w)),
      setup_locale = (\<lambda>lg w. (None, w)),
      serialize = (\<lambda>s. PDict [(''session_id'', PStr (session_id s)), (''lang'', PStr (lang s))]),
      py_str = demo_str,
      config_sounds = None,
      reply_context = (\<lambda>ctx. ctx),
      default_lang = ''en-us'',
      default_pipeline =
        [''converse'', ''padatious_high'', ''adapt'', ''common_qa'', ''fallback_high'',
         ''padatious_medium'', ''fallback_medium'', ''padatious_low'', ''fallback_low''],
      session_ttl = 300,
      services = demo_services\<rparr>"

definition demo_session :: "string \<Rightarrow> string list \<Rightarrow> session" where
  "demo_session sid stages =
     \<lparr>session_id = sid, lang = ''en-us'', active_skills = [(''old.skill'', 900)],
      context_stack = [], pipeline = stages, expiry_deadline = 1200\<rparr>"

definition demo_world :: "unit world" where
  "demo_world =
     \<lparr>sessions = [''default'' \<mapsto> demo_session ''default'' [''converse'', ''fallback_low''],
                  ''s1'' \<mapsto> demo_session ''s1'' [''converse'', ''adapt'', ''common_qa''],
                  ''s2'' \<mapsto> demo_session ''s2'' [''converse'', ''common_qa'', ''adapt''],
                  ''s3'' \<mapsto> demo_session ''s3'' [''converse'', ''plugin_stage'', ''adapt''],
                  ''s4'' \<mapsto> demo_session ''s4'' [''converse'', ''padacioso_high'']],
      bus = [], logged = [], now = 1000, ext = ()\<rparr>"

definition demo_message :: "dict \<Rightarrow> message" where
  "demo_message ctx =
     \<lparr>msg_type = ''recognizer_loop:utterance'',
      msg_data = [''utterances'' \<mapsto> PList [PStr ''turn on the light'']],
      msg_context = ctx\<rparr>"

section \<open>Auxiliary lemmas\<close>

lemma lang_candidates_Nil: "lang_candidates e ctx [] = []"
  by (simp add: lang_candidates_def map_filter_simps)

lemma lang_candidates_Cons:
  "lang_candidates e ctx (k # ks) =
     (case ctx k of
        None \<Rightarrow> lang_candidates e ctx ks
      | Some c \<Rightarrow> (k, get_full_lang_code e c) # lang_candidates e ctx ks)"
  by (simp add: lang_candidates_def map_filter_simps split: option.splits)

lemma lang_loop_fst:
  "fst (lang_loop e d ctx ks) =
     (case filter (enabled e) (lang_candidates e ctx ks) of
        [] \<Rightarrow> d
      | kv # _ \<Rightarrow> snd kv)"
  by (induction ks)
     (auto simp: lang_candidates_Nil lang_candidates_Cons enabled_def Let_def
           split: option.splits prod.splits)

lemma lang_loop_snd:
  "snd (lang_loop e d ctx ks) =
     map (\<lambda>kv. Warning_ignoring_lang (fst kv) (snd kv))
         (takeWhile (\<lambda>kv. \<not> enabled e kv) (lang_candidates e ctx ks)) @
     (case filter (enabled e) (lang_candidates e ctx ks) of
        [] \<Rightarrow> []
      | kv # _ \<Rightarrow> if snd kv \<noteq> d then [Info_replaced_lang d (fst kv) (snd kv)] else [])"
  by (induction ks)
     (auto simp: lang_candidates_Nil lang_candidates_Cons enabled_def Let_def
           split: option.splits prod.splits)

lemma run_pipeline_append:
  "decline_all fs utts lg m w = Some (m1, w1) \<Longrightarrow>
   run_pipeline (fs @ gs) utts lg m w =
     (case run_pipeline gs utts lg m1 w1 of
        (res, n, m2, w2) \<Rightarrow> (res, length fs + n, m2, w2))"
proof (induction fs arbitrary: m w)
  case Nil
  then show ?case by (simp split: prod.splits)
next
  case (Cons f fs)
  then show ?case
    by (auto split: prod.splits sum.splits option.splits)
qed

lemma run_pipeline_None_iff:
  "run_pipeline fs utts lg m w = (Inr None, n, m2, w2) \<longleftrightarrow>
     decline_all fs utts lg m w = Some (m2, w2) \<and> n = length fs"
proof (induction fs arbitrary: m w n)
  case Nil
  then show ?case by auto
next
  case (Cons g gs)
  obtain res mg wg where g: "g utts lg m w = (res, mg, wg)"
    by (cases "g utts lg m w") auto
  obtain res' k m' w' where rest: "run_pipeline gs utts lg mg wg = (res', k, m', w')"
    by (cases "run_pipeline gs utts lg mg wg") auto
  show ?case
  proof (cases res)
    case (Inl err)
    with g show ?thesis by simp
  next
    case (Inr opt)
    show ?thesis
    proof (cases opt)
      case None
      from Cons.IH[of mg wg k] rest
      have "(res' = Inr None \<and> m' = m2 \<and> w' = w2) \<longleftrightarrow>
            (decline_all gs utts lg mg wg = Some (m2, w2) \<and> k = length gs)"
        by auto
      moreover from Cons.IH[of mg wg "length gs"] rest
      have "decline_all gs utts lg mg wg = Some (m2, w2) \<Longrightarrow> k = length gs"
        by auto
      ultimately show ?thesis using g Inr None rest by auto
    next
      case (Some r')
      with g Inr show ?thesis by simp
    qed
  qed
qed

lemma run_pipeline_Some_iff:
  "run_pipeline fs utts lg m w = (Inr (Some r), n, m2, w2) \<longleftrightarrow>
     (\<exists>pre f post ma wa.
        fs = pre @ f # post \<and> decline_all pre utts lg m w = Some (ma, wa) \<and>
        f utts lg ma wa = (Inr (Some r), m2, w2) \<and> n = Suc (length pre))"
  (is "?L fs m w n \<longleftrightarrow> ?R fs m w n")
proof
  show "?L fs m w n \<Longrightarrow> ?R fs m w n"
  proof (induction fs arbitrary: m w n)
    case Nil
    then show ?case by simp
  next
    case (Cons g gs)
    obtain res mg wg where g: "g utts lg m w = (res, mg, wg)"
      by (cases "g utts lg m w") auto
    show ?case
    proof (cases res)
      case (Inl err)
      with Cons.prems g show ?thesis by simp
    next
      case (Inr opt)
      show ?thesis
      proof (cases opt)
        case None
        obtain res' k m' w' where rest: "run_pipeline gs utts lg mg wg = (res', k, m', w')"
          by (cases "run_pipeline gs utts lg mg wg") auto
        with Cons.prems g Inr None
        have "run_pipeline gs utts lg mg wg = (Inr (Some r), k, m2, w2)" and n: "n = Suc k"
          by auto
        from Cons.IH[OF this(1)] obtain pre f post ma wa where
          "gs = pre @ f # post" "decline_all pre utts lg mg wg = Some (ma, wa)"
          "f utts lg ma wa = (Inr (Some r), m2, w2)" "k = Suc (length pre)"
          by blast
        with g Inr None n
        have "g # gs = (g # pre) @ f # post \<and>
              decline_all (g # pre) utts lg m w = Some (ma, wa) \<and>
              f utts lg ma wa = (Inr (Some r), m2, w2) \<and> n = Suc (length (g # pre))"
          by simp
        then show ?thesis by blast
      next
        case (Some r')
        with Cons.prems g Inr
        have "g # gs = [] @ g # gs \<and> decline_all [] utts lg m w = Some (m, w) \<and>
              g utts lg m w = (Inr (Some r), m2, w2) \<and> n = Suc (length ([] :: 'a stage list))"
          by simp
        then show ?thesis by blast
      qed
    qed
  qed
next
  assume "?R fs m w n"
  then obtain pre f post ma wa where
    "fs = pre @ f # post" "decline_all pre utts lg m w = Some (ma, wa)"
    "f utts lg ma wa = (Inr (Some r), m2, w2)" "n = Suc (length pre)"
    by blast
  then show "?L fs m w n"
    by (simp add: run_pipeline_append)
qed

lemma resolve_stages_Inr:
  "resolve_stages reg ks = Inr fs \<Longrightarrow> map Some fs = map (map_of reg) ks"
  by (induction ks arbitrary: fs) (auto split: option.splits sum.splits)

lemma resolve_stages_find:
  "resolve_stages reg ks =
     (case List.find (\<lambda>k. map_of reg k = None) ks of
        Some k \<Rightarrow> Inl (KeyError k)
      | None \<Rightarrow> Inr (map (\<lambda>k. the (map_of reg k)) ks))"
  by (induction ks) (auto split: option.splits sum.splits)

lemma get_pipeline_given:
  "get_pipeline e skips (Some sess) w =
     (resolve_stages (stage_registry e)
        (filter (\<lambda>k. k \<notin> set (case skips of None \<Rightarrow> [] | Some ks \<Rightarrow> ks)) (pipeline sess)),
      if padatious_service (services e) = None \<and> list_ex (contains ''padatious'') (pipeline sess)
      then w\<lparr>logged := logged w @ [Warning_padatious_unavailable]\<rparr> else w)"
  by (simp add: get_pipeline_def stage_registry_def split: option.splits)

lemma get_pipeline_same_but_log:
  "same_but_log w (snd (get_pipeline e skips (Some sess) w))"
  by (simp add: get_pipeline_given same_but_log_def)

lemma handle_utterance_matched:
  assumes "prepare e m w = Inr (lg, utts, sess, m1, w1)"
    and "match_utterance e sess utts lg m1 w1 = (Inr mt, n, m2, w2)"
  shows "handle_utterance e m w =
           (Inr (Some (fst (emit_result e sess mt m2 w2))), snd (emit_result e sess mt m2 w2))"
  using assms
  by (simp add: handle_utterance_def handle_utterance_body_def split: prod.splits)

lemma handle_utterance_match_raised:
  assumes "prepare e m w = Inr (lg, utts, sess, m1, w1)"
    and "match_utterance e sess utts lg m1 w1 = (Inl err, n, m2, w2)"
  shows "handle_utterance e m w = (Inr None, w2\<lparr>logged := logged w2 @ [Exception_logged err]\<rparr>)"
  using assms
  by (simp add: handle_utterance_def handle_utterance_body_def)

lemma handle_utterance_prepare_raised:
  assumes "prepare e m w = Inl (err, w1)"
  shows "handle_utterance e m w = (Inr None, w1\<lparr>logged := logged w1 @ [Exception_logged err]\<rparr>)"
  using assms
  by (simp add: handle_utterance_def handle_utterance_body_def)

lemma emit_result_None:
  "emit_result e sess None m w =
     ((None, msg_context m),
      w\<lparr>logged := logged w @ [Debug_matching_took],
        bus := bus w @
          [Published \<lparr>msg_type = ''mycroft.audio.play_sound'',
                      msg_data = [''uri'' \<mapsto> error_sound e], msg_context = msg_context m\<rparr>,
           Published \<lparr>msg_type = ''complete_intent_failure'',
                      msg_data = Map.empty, msg_context = msg_context m\<rparr>] @
          final_resync e sess w\<rparr>)"
  by (simp add: emit_result_def send_complete_intent_failure_def forward_def
        SessionManager_sync_def final_resync_def Let_def)

lemma published_append: "published (xs @ ys) = published xs @ published ys"
  by (induction xs rule: published.induct) simp_all

lemma published_final_resync: "published (final_resync e sess w) = []"
  by (simp add: final_resync_def)

lemma prepare_demo_default:
  "prepare demo_env (demo_message Map.empty) demo_world =
     Inr (''en-us'', PList [PStr ''turn on the light''],
          (demo_session ''default'' [''converse'', ''fallback_low''])\<lparr>expiry_deadline := 1300\<rparr>,
          demo_message
            [''lang'' \<mapsto> PStr ''en-us'',
             ''session'' \<mapsto> PDict [(''session_id'', PStr ''default''), (''lang'', PStr ''en-us'')]],
          demo_world\<lparr>sessions := (sessions demo_world)(''default'' \<mapsto>
            (demo_session ''default'' [''converse'', ''fallback_low''])\<lparr>expiry_deadline := 1300\<rparr>)\<rparr>)"
  by (simp add: prepare_def handle_transformers_def disambiguate_lang_def lang_keys_def
        validate_session_def SessionManager_get_def session_id_of_def expired_def touch_def
        demo_env_def demo_message_def demo_world_def demo_session_def Let_def)

lemma activate_skill_bus: "bus (activate_skill e sid m w) = bus w"
  by (simp add: activate_skill_def SessionManager_get_def Let_def split: option.splits)

lemma emit_result_Some_fst:
  "fst (emit_result e sess (Some r) m w) = (Some r, stamped_context r m)"
  by (simp add: emit_result_def stamped_context_def Let_def split: option.splits prod.splits)

lemma emit_result_Some_bus:
  "bus (snd (emit_result e sess (Some r) m w)) =
     bus w @
     (case intent_type r of
        None \<Rightarrow> []
      | Some t \<Rightarrow>
          if t = [] then []
          else [Published \<lparr>msg_type = t,
                  msg_data = (msg_data m)(''utterance'' \<mapsto> PStr (utterance r)) ++ intent_data r,
                  msg_context = reply_context e (stamped_context r m)\<rparr>]) @
     final_resync e sess (snd (emit_result e sess (Some r) m w))"
  by (simp add: emit_result_def stamped_context_def final_resync_def SessionManager_sync_def
        reply_def activate_skill_bus Let_def
      split: option.splits prod.splits)

lemma prepare_demo_session:
  assumes "sessions demo_world sid = Some (demo_session sid ps)" and "sid \<noteq> ''default''"
  shows "prepare demo_env (demo_message [''session_id'' \<mapsto> PStr sid]) demo_world =
     Inr (''en-us'', PList [PStr ''turn on the light''],
          (demo_session sid ps)\<lparr>expiry_deadline := 1300\<rparr>,
          demo_message
            [''session_id'' \<mapsto> PStr sid, ''lang'' \<mapsto> PStr ''en-us'',
             ''session'' \<mapsto> PDict [(''session_id'', PStr sid), (''lang'', PStr ''en-us'')]],
          demo_world\<lparr>sessions := (sessions demo_world)(sid \<mapsto>
            (demo_session sid ps)\<lparr>expiry_deadline := 1300\<rparr>)\<rparr>)"
  using assms
  by (simp add: prepare_def handle_transformers_def disambiguate_lang_def lang_keys_def
        validate_session_def SessionManager_get_def SessionManager_update_def session_id_of_def
        touch_def demo_env_def demo_message_def demo_session_def Let_def)
     (simp add: demo_world_def)

lemma match_demo_intent:
  "pipeline s = [''converse'', ''adapt'', ''common_qa''] \<Longrightarrow>
   match_utterance demo_env s u lg m w = (Inr (Some lights_match), 2, m, w)"
  by (simp add: match_utterance_def get_pipeline_def demo_env_def demo_services_def matchers_def
        stage_decline_def stage_intent_def)

lemma match_demo_handled:
  "pipeline s = [''converse'', ''padacioso_high''] \<Longrightarrow>
   match_utterance demo_env s u lg m w = (Inr (Some chat_match), 2, m, w)"
  by (simp add: match_utterance_def get_pipeline_def demo_env_def demo_services_def matchers_def
        stage_decline_def stage_handled_def)

lemma match_demo_fault:
  "pipeline s = [''converse'', ''common_qa'', ''adapt''] \<Longrightarrow>
   match_utterance demo_env s u lg m w = (Inl (Raised ''stage fault''), 2, m, w)"
  by (simp add: match_utterance_def get_pipeline_def demo_env_def demo_services_def matchers_def
        stage_decline_def stage_raise_def)

section \<open>C1: stages run in the configured order, the first match wins\<close>

text \<open>
  Claim C1. Dispatch calls the stages of the session in their configured order and returns
  the result of the first stage that returns a match; no stage after it is called; if every
  stage returns \<^verbatim>\<open>None\<close>, there is no match.

  Let the pipeline built for the session be \<open>stages\<close>. Then stage \<open>i\<close> is the registry's
  entry of the \<open>i\<close>-th configured name, and building the list has called no stage (only the
  log can differ). Dispatch returns the match \<open>r\<close> after \<open>n\<close> calls exactly when the list
  splits as \<open>pre @ f # post\<close>, every stage of \<open>pre\<close>, called in turn, has returned
  \<^verbatim>\<open>None\<close>, \<open>f\<close> has returned \<open>r\<close> on the message and world they left, and \<open>n\<close> is
  \<open>length pre + 1\<close>: the stages of \<open>post\<close> are not among the calls and have no influence
  on the outcome, whatever they would return. Dispatch returns no match exactly when every
  stage was called once, in order, and returned \<^verbatim>\<open>None\<close>. Nothing in a match is compared:
  a match carries no confidence at this level.
\<close>

theorem dispatch_first_match:
  assumes "get_pipeline e None (Some sess) w = (Inr stages, w1)"
  shows "map Some stages = map (map_of (stage_registry e)) (pipeline sess)
     \<and> same_but_log w w1
     \<and> (match_utterance e sess utts lg m w = (Inr (Some r), n, m2, w2) \<longleftrightarrow>
          (\<exists>pre f post ma wa.
             stages = pre @ f # post \<and> decline_all pre utts lg m w1 = Some (ma, wa) \<and>
             f utts lg ma wa = (Inr (Some r), m2, w2) \<and> n = Suc (length pre)))
     \<and> (match_utterance e sess utts lg m w = (Inr None, n, m2, w2) \<longleftrightarrow>
          decline_all stages utts lg m w1 = Some (m2, w2) \<and> n = length stages)
     \<and> (\<forall>pre f post ma wa.
          stages = pre @ f # post \<and> decline_all pre utts lg m w1 = Some (ma, wa) \<and>
          f utts lg ma wa = (Inr (Some r), m2, w2) \<longrightarrow>
          match_utterance e sess utts lg m w = (Inr (Some r), Suc (length pre), m2, w2))"
proof -
  from assms have "resolve_stages (stage_registry e) (pipeline sess) = Inr stages"
    by (simp add: get_pipeline_given)
  then have order: "map Some stages = map (map_of (stage_registry e)) (pipeline sess)"
    by (rule resolve_stages_Inr)
  from get_pipeline_same_but_log[of w e None sess] assms have same: "same_but_log w w1"
    by simp
  from assms have run: "match_utterance e sess utts lg m w = run_pipeline stages utts lg m w1"
    by (simp add: match_utterance_def)
  show ?thesis
    unfolding run using order same
    by (auto simp: run_pipeline_Some_iff run_pipeline_None_iff)
qed

theorem dispatch_first_match_witness:
  "match_utterance demo_env (demo_session ''s1'' [''converse'', ''adapt'', ''common_qa''])
       (PList [PStr ''turn on the light'']) ''en-us'' (demo_message Map.empty) demo_world =
     (Inr (Some lights_match), 2, demo_message Map.empty, demo_world)
   \<and> match_utterance demo_env (demo_session ''default'' [''converse'', ''fallback_low''])
       (PList [PStr ''turn on the light'']) ''en-us'' (demo_message Map.empty) demo_world =
     (Inr None, 2, demo_message Map.empty, demo_world)"
proof -
  let ?u = "PList [PStr ''turn on the light'']"
  let ?m = "demo_message Map.empty"
  let ?s1 = "demo_session ''s1'' [''converse'', ''adapt'', ''common_qa'']"
  let ?s0 = "demo_session ''default'' [''converse'', ''fallback_low'']"
  have p1: "get_pipeline demo_env None (Some ?s1) demo_world =
              (Inr [stage_decline, stage_intent, stage_raise], demo_world)"
    by (simp add: get_pipeline_def demo_env_def demo_services_def demo_session_def matchers_def)
  have p0: "get_pipeline demo_env None (Some ?s0) demo_world =
              (Inr [stage_decline, stage_decline], demo_world)"
    by (simp add: get_pipeline_def demo_env_def demo_services_def demo_session_def matchers_def)
  have "[stage_decline, stage_intent, stage_raise] = [stage_decline] @ stage_intent # [stage_raise]
        \<and> decline_all [stage_decline] ?u ''en-us'' ?m demo_world = Some (?m, demo_world)
        \<and> stage_intent ?u ''en-us'' ?m demo_world = (Inr (Some lights_match), ?m, demo_world)"
    by (simp add: stage_decline_def stage_intent_def)
  with dispatch_first_match[OF p1, of ?u "''en-us''" ?m lights_match 2 ?m demo_world]
  have a: "match_utterance demo_env ?s1 ?u ''en-us'' ?m demo_world =
             (Inr (Some lights_match), 2, ?m, demo_world)"
    by (metis length_Cons list.size(3) numeral_2_eq_2)
  have "decline_all [stage_decline, stage_decline] ?u ''en-us'' ?m demo_world = Some (?m, demo_world)"
    by (simp add: stage_decline_def)
  with dispatch_first_match[OF p0, of ?u "''en-us''" ?m lights_match 2 ?m demo_world]
  have b: "match_utterance demo_env ?s0 ?u ''en-us'' ?m demo_world = (Inr None, 2, ?m, demo_world)"
    by simp
  from a b show ?thesis by simp
qed

section \<open>C3: an unknown stage name fails before any stage runs\<close>

text \<open>
  Claim C3. Building the pipeline looks every configured, non-skipped stage name up in the
  registry before any stage runs; an unknown name raises before the first stage is called.

  If some configured name that is not skipped is not a key of the registry, then
  \<^verbatim>\<open>get_pipeline\<close> raises \<^verbatim>\<open>KeyError\<close> for the first such name, and the session store, the
  bus, the clock and the collaborators' state are as before (no stage has run). In the
  utterance handler, where nothing is skipped, the matching loop then makes zero calls
  and the message is unchanged, also when known names precede the unknown one.
\<close>

theorem unknown_stage_raises_eagerly:
  assumes "k \<in> set (pipeline sess)" and "k \<notin> set skips"
    and "map_of (stage_registry e) k = None"
  shows "\<exists>k' w1.
           get_pipeline e (Some skips) (Some sess) w = (Inl (KeyError k'), w1)
         \<and> List.find (\<lambda>k. map_of (stage_registry e) k = None)
               (filter (\<lambda>k. k \<notin> set skips) (pipeline sess)) = Some k'
         \<and> same_but_log w w1
         \<and> (skips = [] \<longrightarrow>
              match_utterance e sess utts lg m w = (Inl (KeyError k'), 0, m, w1))"
proof -
  let ?names = "filter (\<lambda>k. k \<notin> set skips) (pipeline sess)"
  from assms have "k \<in> set ?names" by simp
  with assms(3) obtain k' where
    found: "List.find (\<lambda>k. map_of (stage_registry e) k = None) ?names = Some k'"
    by (cases "List.find (\<lambda>k. map_of (stage_registry e) k = None) ?names")
       (auto simp: find_None_iff)
  obtain r w1 where gp: "get_pipeline e (Some skips) (Some sess) w = (r, w1)"
    by (cases "get_pipeline e (Some skips) (Some sess) w") auto
  from gp found have r: "r = Inl (KeyError k')"
    by (simp add: get_pipeline_given resolve_stages_find)
  from get_pipeline_same_but_log[of w e "Some skips" sess] gp have same: "same_but_log w w1"
    by simp
  have "match_utterance e sess utts lg m w = (Inl (KeyError k'), 0, m, w1)" if "skips = []"
  proof -
    from gp that have "get_pipeline e None (Some sess) w = (r, w1)"
      by (simp add: get_pipeline_given)
    with r show ?thesis by (simp add: match_utterance_def)
  qed
  with gp r found same show ?thesis by blast
qed

theorem unknown_stage_raises_eagerly_witness:
  "''plugin_stage'' \<in> set (pipeline (demo_session ''s3'' [''converse'', ''plugin_stage'', ''adapt'']))
   \<and> map_of (stage_registry demo_env) ''plugin_stage'' = None
   \<and> match_utterance demo_env (demo_session ''s3'' [''converse'', ''plugin_stage'', ''adapt''])
        (PList [PStr ''turn on the light'']) ''en-us'' (demo_message Map.empty) demo_world =
      (Inl (KeyError ''plugin_stage''), 0, demo_message Map.empty, demo_world)"
proof -
  let ?s3 = "demo_session ''s3'' [''converse'', ''plugin_stage'', ''adapt'']"
  have h1: "''plugin_stage'' \<in> set (pipeline ?s3)" by (simp add: demo_session_def)
  have h2: "''plugin_stage'' \<notin> set ([] :: string list)" by simp
  have h3: "map_of (stage_registry demo_env) ''plugin_stage'' = None"
    by (simp add: stage_registry_def matchers_def)
  from unknown_stage_raises_eagerly[OF h1 h2 h3,
        where w = demo_world and utts = "PList [PStr ''turn on the light'']" and lg = "''en-us''"
          and m = "demo_message Map.empty"]
  obtain k' w1 where
    "get_pipeline demo_env (Some []) (Some ?s3) demo_world = (Inl (KeyError k'), w1)"
    "match_utterance demo_env ?s3 (PList [PStr ''turn on the light'']) ''en-us''
        (demo_message Map.empty) demo_world = (Inl (KeyError k'), 0, demo_message Map.empty, w1)"
    by auto
  moreover have "get_pipeline demo_env (Some []) (Some ?s3) demo_world =
                   (Inl (KeyError ''plugin_stage''), demo_world)"
    by (simp add: get_pipeline_def demo_env_def demo_services_def demo_session_def matchers_def)
  ultimately show ?thesis using h1 h3 by simp
qed

section \<open>C4: session validation\<close>

text \<open>
  Claim C4. Validating the default session after its deadline has elapsed gives a fresh
  default record (empty active-skill stack) and sends exactly one resync broadcast;
  validating the default session before its deadline with an unchanged language sends no
  broadcast; for a session that is not the default one the language is set and persisted
  whatever it was, the deadline is touched, and nothing is broadcast.

  \<open>sess\<close> is the record the store resolves for the message, \<open>s'\<close> the record that
  validation returns and \<open>w'\<close> the world it leaves. In the first case \<open>s'\<close> is the fresh
  record with the resolved language, it is the default record of the store, and the bus has
  grown by the one broadcast, which carries that record.
\<close>

theorem validate_session_cases:
  assumes "SessionManager_get e (Some m) w = (sess, w1)"
    and "validate_session e m lg w = (s', w')"
  shows "(session_id sess = ''default'' \<and> expired sess w1 \<longrightarrow>
            s' = (fresh_session e ''default'' (now w))\<lparr>lang := lg\<rparr>
          \<and> active_skills s' = []
          \<and> sessions w' ''default'' = Some s'
          \<and> bus w' = bus w @
                [Session_resync
                   (Some (serialize e ((fresh_session e ''default'' (now w))\<lparr>lang := lg\<rparr>)))])
       \<and> (session_id sess = ''default'' \<and> \<not> expired sess w1 \<and> lg = lang sess \<longrightarrow>
            bus w' = bus w
          \<and> s' = sess\<lparr>expiry_deadline := now w + session_ttl e\<rparr>
          \<and> sessions w' ''default'' = Some s')
       \<and> (session_id sess \<noteq> ''default'' \<longrightarrow>
            s' = sess\<lparr>lang := lg, expiry_deadline := now w + session_ttl e\<rparr>
          \<and> sessions w' (session_id sess) = Some s'
          \<and> bus w' = bus w)"
proof -
  from assms(1) have w1: "bus w1 = bus w" "now w1 = now w"
    by (auto simp: SessionManager_get_def Let_def split: option.splits)
  have expired_case: ?thesis if "session_id sess = ''default''" "expired sess w1"
  proof (cases "lg = default_lang e")
    case True
    with assms that w1 show ?thesis
      by (auto simp: validate_session_def reset_default_session_def touch_def
            SessionManager_sync_def SessionManager_update_def fresh_session_def Let_def)
  next
    case False
    with assms that w1 show ?thesis
      by (auto simp: validate_session_def reset_default_session_def touch_def
            SessionManager_sync_def SessionManager_update_def fresh_session_def Let_def)
  qed
  have same_case: ?thesis if "session_id sess = ''default''" "\<not> expired sess w1"
    using assms that w1
    by (auto simp: validate_session_def touch_def Let_def)
  have other_case: ?thesis if "session_id sess \<noteq> ''default''"
    using assms that w1
    by (auto simp: validate_session_def touch_def SessionManager_update_def Let_def)
  from expired_case same_case other_case show ?thesis by blast
qed


theorem validate_session_cases_witness:
  "active_skills (fst (validate_session demo_env (demo_message Map.empty) ''en-us''
        (demo_world\<lparr>now := 2000\<rparr>))) = []
   \<and> bus (snd (validate_session demo_env (demo_message Map.empty) ''en-us''
        (demo_world\<lparr>now := 2000\<rparr>))) =
       [Session_resync (Some (PDict [(''session_id'', PStr ''default''), (''lang'', PStr ''en-us'')]))]
   \<and> bus (snd (validate_session demo_env (demo_message Map.empty) ''en-us'' demo_world)) = []
   \<and> lang (fst (validate_session demo_env (demo_message [''session_id'' \<mapsto> PStr ''s1''])
        ''es-es'' demo_world)) = ''es-es''
   \<and> expiry_deadline (fst (validate_session demo_env
        (demo_message [''session_id'' \<mapsto> PStr ''s1'']) ''es-es'' demo_world)) = 1300
   \<and> bus (snd (validate_session demo_env (demo_message [''session_id'' \<mapsto> PStr ''s1''])
        ''es-es'' demo_world)) = []"
proof -
  let ?m0 = "demo_message Map.empty"
  let ?m1 = "demo_message [''session_id'' \<mapsto> PStr ''s1'']"
  let ?late = "demo_world\<lparr>now := 2000\<rparr>"
  let ?d = "demo_session ''default'' [''converse'', ''fallback_low'']"
  let ?s1 = "demo_session ''s1'' [''converse'', ''adapt'', ''common_qa'']"
  have g_late: "SessionManager_get demo_env (Some ?m0) ?late = (?d, ?late)"
    by (simp add: SessionManager_get_def session_id_of_def demo_message_def demo_world_def Let_def)
  have g_now: "SessionManager_get demo_env (Some ?m0) demo_world = (?d, demo_world)"
    by (simp add: SessionManager_get_def session_id_of_def demo_message_def demo_world_def Let_def)
  have g_s1: "SessionManager_get demo_env (Some ?m1) demo_world = (?s1, demo_world)"
    by (simp add: SessionManager_get_def session_id_of_def demo_message_def demo_world_def Let_def)
  have v: "validate_session e m lg w = (fst (validate_session e m lg w), snd (validate_session e m lg w))"
    for e :: "unit env" and m lg w
    by simp
  have a: "session_id ?d = ''default'' \<and> expired ?d ?late"
    by (simp add: demo_session_def expired_def demo_world_def)
  have b: "session_id ?d = ''default'' \<and> \<not> expired ?d demo_world \<and> ''en-us'' = lang ?d"
    by (simp add: demo_session_def expired_def demo_world_def)
  have c: "session_id ?s1 \<noteq> ''default''"
    by (simp add: demo_session_def)
  from validate_session_cases[OF g_late v] a
  have "active_skills (fst (validate_session demo_env ?m0 ''en-us'' ?late)) = []
      \<and> bus (snd (validate_session demo_env ?m0 ''en-us'' ?late)) =
          [Session_resync (Some (PDict [(''session_id'', PStr ''default''), (''lang'', PStr ''en-us'')]))]"
    by (simp add: demo_world_def demo_env_def fresh_session_def)
  moreover from validate_session_cases[OF g_now v] b
  have "bus (snd (validate_session demo_env ?m0 ''en-us'' demo_world)) = []"
    by (simp add: demo_world_def)
  moreover from validate_session_cases[OF g_s1 v] c
  have "lang (fst (validate_session demo_env ?m1 ''es-es'' demo_world)) = ''es-es''
      \<and> expiry_deadline (fst (validate_session demo_env ?m1 ''es-es'' demo_world)) = 1300
      \<and> bus (snd (validate_session demo_env ?m1 ''es-es'' demo_world)) = []"
    by (simp add: demo_world_def demo_env_def)
  ultimately show ?thesis by simp
qed

section \<open>C5: language disambiguation\<close>

text \<open>
  Claim C5. Language disambiguation inspects the context keys \<^verbatim>\<open>stt_lang\<close>,
  \<^verbatim>\<open>request_lang\<close>, \<^verbatim>\<open>detected_lang\<close> in that order, normalizes each candidate that is
  present, and returns the first normalized tag that is an enabled language; a candidate
  that is not enabled is logged and skipped; if none qualifies, the message's default
  language is returned. With \<^verbatim>\<open>stt_lang = "es-es"\<close> and \<^verbatim>\<open>request_lang = "en-us"\<close> both
  present and enabled, the result is \<^verbatim>\<open>es-es\<close>.

  The value returned is the normalized tag (\<^verbatim>\<open>get_full_lang_code\<close> of the context value).
  The log holds one warning for each candidate rejected before the winner, in order, and
  then the note that the default was replaced when the winner differs from it.
\<close>

theorem disambiguate_lang_precedence:
  "fst (disambiguate_lang e m) =
     (case filter (enabled e)
             (lang_candidates e (msg_context m) [''stt_lang'', ''request_lang'', ''detected_lang'']) of
        [] \<Rightarrow> get_message_lang e m
      | kv # _ \<Rightarrow> snd kv)
   \<and> snd (disambiguate_lang e m) =
       map (\<lambda>kv. Warning_ignoring_lang (fst kv) (snd kv))
         (takeWhile (\<lambda>kv. \<not> enabled e kv)
            (lang_candidates e (msg_context m) [''stt_lang'', ''request_lang'', ''detected_lang''])) @
       (case filter (enabled e)
               (lang_candidates e (msg_context m) [''stt_lang'', ''request_lang'', ''detected_lang'']) of
          [] \<Rightarrow> []
        | kv # _ \<Rightarrow>
            if snd kv \<noteq> get_message_lang e m
            then [Info_replaced_lang (get_message_lang e m) (fst kv) (snd kv)]
            else [])
   \<and> (msg_context m ''stt_lang'' = Some (PStr ''es-es'')
        \<and> msg_context m ''request_lang'' = Some (PStr ''en-us'')
        \<and> get_full_lang_code e (PStr ''es-es'') = ''es-es''
        \<and> get_full_lang_code e (PStr ''en-us'') = ''en-us''
        \<and> ''es-es'' \<in> set (get_valid_languages e)
        \<and> ''en-us'' \<in> set (get_valid_languages e)
      \<longrightarrow> fst (disambiguate_lang e m) = ''es-es'')"
proof -
  let ?ks = "[''stt_lang'', ''request_lang'', ''detected_lang'']"
  have first: "fst (disambiguate_lang e m) =
     (case filter (enabled e) (lang_candidates e (msg_context m) ?ks) of
        [] \<Rightarrow> get_message_lang e m
      | kv # _ \<Rightarrow> snd kv)"
    unfolding disambiguate_lang_def lang_keys_def by (rule lang_loop_fst)
  have entries: "snd (disambiguate_lang e m) =
       map (\<lambda>kv. Warning_ignoring_lang (fst kv) (snd kv))
         (takeWhile (\<lambda>kv. \<not> enabled e kv) (lang_candidates e (msg_context m) ?ks)) @
       (case filter (enabled e) (lang_candidates e (msg_context m) ?ks) of
          [] \<Rightarrow> []
        | kv # _ \<Rightarrow>
            if snd kv \<noteq> get_message_lang e m
            then [Info_replaced_lang (get_message_lang e m) (fst kv) (snd kv)]
            else [])"
    unfolding disambiguate_lang_def lang_keys_def by (rule lang_loop_snd)
  have example: "fst (disambiguate_lang e m) = ''es-es''"
    if "msg_context m ''stt_lang'' = Some (PStr ''es-es'')"
      and "get_full_lang_code e (PStr ''es-es'') = ''es-es''"
      and "''es-es'' \<in> set (get_valid_languages e)"
    using that by (simp add: first lang_candidates_Cons enabled_def)
  from first entries example show ?thesis by blast
qed

theorem disambiguate_lang_precedence_witness:
  "fst (disambiguate_lang demo_env
          (demo_message [''stt_lang'' \<mapsto> PStr ''es-es'', ''request_lang'' \<mapsto> PStr ''en-us''])) = ''es-es''
   \<and> disambiguate_lang demo_env
          (demo_message [''stt_lang'' \<mapsto> PStr ''fr-fr'', ''detected_lang'' \<mapsto> PStr ''es-es'']) =
       (''es-es'', [Warning_ignoring_lang ''stt_lang'' ''fr-fr'',
                    Info_replaced_lang ''en-us'' ''detected_lang'' ''es-es''])
   \<and> disambiguate_lang demo_env (demo_message [''stt_lang'' \<mapsto> PStr ''fr-fr'']) =
       (''en-us'', [Warning_ignoring_lang ''stt_lang'' ''fr-fr''])"
  using disambiguate_lang_precedence
          [of demo_env "demo_message [''stt_lang'' \<mapsto> PStr ''es-es'', ''request_lang'' \<mapsto> PStr ''en-us'']"]
        disambiguate_lang_precedence
          [of demo_env "demo_message [''stt_lang'' \<mapsto> PStr ''fr-fr'', ''detected_lang'' \<mapsto> PStr ''es-es'']"]
        disambiguate_lang_precedence
          [of demo_env "demo_message [''stt_lang'' \<mapsto> PStr ''fr-fr'']"]
  by (simp add: demo_env_def demo_message_def lang_candidates_Cons lang_candidates_Nil
        enabled_def prod_eq_iff)

section \<open>C6: pipeline exhaustion\<close>

text \<open>
  Claim C6. When every stage of the pipeline returns \<^verbatim>\<open>None\<close>, the handler publishes exactly
  one audio failure notification and exactly one \<^verbatim>\<open>complete_intent_failure\<close> event, both
  carrying the context of the event being handled, and no intent event.

  \<open>m2\<close> and \<open>w2\<close> are the message and the world as the last stage left them. The handler
  returns no match, and what it adds to the bus after that point is the sound message,
  the failure message, and the resync broadcast when the session is the default one:
  the messages among them are those two, each with the context of \<open>m2\<close>, the inbound event
  as it stands after the transformers, the handler's own stamps (\<^verbatim>\<open>lang\<close>, \<^verbatim>\<open>session\<close>)
  and the stages.
\<close>

theorem complete_failure_events:
  assumes "prepare e m w = Inr (lg, utts, sess, m1, w1)"
    and "get_pipeline e None (Some sess) w1 = (Inr stages, wp)"
    and "decline_all stages utts lg m1 wp = Some (m2, w2)"
  shows "\<exists>w'. handle_utterance e m w = (Inr (Some (None, msg_context m2)), w')
     \<and> bus w' = bus w2 @
          [Published \<lparr>msg_type = ''mycroft.audio.play_sound'',
                      msg_data = [''uri'' \<mapsto> error_sound e], msg_context = msg_context m2\<rparr>,
           Published \<lparr>msg_type = ''complete_intent_failure'',
                      msg_data = Map.empty, msg_context = msg_context m2\<rparr>] @
          final_resync e sess w2
     \<and> map msg_type (published (drop (length (bus w2)) (bus w'))) =
          [''mycroft.audio.play_sound'', ''complete_intent_failure'']
     \<and> map msg_context (published (drop (length (bus w2)) (bus w'))) =
          [msg_context m2, msg_context m2]"
proof -
  from assms(2,3) have "match_utterance e sess utts lg m1 w1 = (Inr None, length stages, m2, w2)"
    by (simp add: match_utterance_def run_pipeline_None_iff)
  from handle_utterance_matched[OF assms(1) this]
  have h: "handle_utterance e m w =
             (Inr (Some (None, msg_context m2)), snd (emit_result e sess None m2 w2))"
    by (simp add: emit_result_None)
  let ?w' = "snd (emit_result e sess None m2 w2)"
  have b: "bus ?w' = bus w2 @
          [Published \<lparr>msg_type = ''mycroft.audio.play_sound'',
                      msg_data = [''uri'' \<mapsto> error_sound e], msg_context = msg_context m2\<rparr>,
           Published \<lparr>msg_type = ''complete_intent_failure'',
                      msg_data = Map.empty, msg_context = msg_context m2\<rparr>] @
          final_resync e sess w2"
    by (simp add: emit_result_None)
  have t: "map msg_type (published (drop (length (bus w2)) (bus ?w'))) =
          [''mycroft.audio.play_sound'', ''complete_intent_failure'']"
    by (simp add: b published_final_resync)
  have c: "map msg_context (published (drop (length (bus w2)) (bus ?w'))) =
          [msg_context m2, msg_context m2]"
    by (simp add: b published_final_resync)
  show ?thesis
    by (rule exI[of _ ?w'], intro conjI) (fact h b t c)+
qed

theorem complete_failure_events_witness:
  "fst (handle_utterance demo_env (demo_message Map.empty) demo_world) =
     Inr (Some (None,
       [''lang'' \<mapsto> PStr ''en-us'',
        ''session'' \<mapsto> PDict [(''session_id'', PStr ''default''), (''lang'', PStr ''en-us'')]]))
   \<and> map msg_type (published (bus (snd (handle_utterance demo_env (demo_message Map.empty) demo_world)))) =
       [''mycroft.audio.play_sound'', ''complete_intent_failure'']
   \<and> length (bus (snd (handle_utterance demo_env (demo_message Map.empty) demo_world))) = 3"
proof -
  let ?s = "(demo_session ''default'' [''converse'', ''fallback_low''])\<lparr>expiry_deadline := 1300\<rparr>"
  let ?m1 = "demo_message
            [''lang'' \<mapsto> PStr ''en-us'',
             ''session'' \<mapsto> PDict [(''session_id'', PStr ''default''), (''lang'', PStr ''en-us'')]]"
  let ?w1 = "demo_world\<lparr>sessions := (sessions demo_world)(''default'' \<mapsto> ?s)\<rparr>"
  have gp: "get_pipeline demo_env None (Some ?s) ?w1 = (Inr [stage_decline, stage_decline], ?w1)"
    by (simp add: get_pipeline_def demo_env_def demo_services_def demo_session_def matchers_def)
  have dec: "decline_all [stage_decline, stage_decline] (PList [PStr ''turn on the light''])
               ''en-us'' ?m1 ?w1 = Some (?m1, ?w1)"
    by (simp add: stage_decline_def)
  from complete_failure_events[OF prepare_demo_default gp dec]
  obtain w' where
    h: "handle_utterance demo_env (demo_message Map.empty) demo_world =
          (Inr (Some (None, msg_context ?m1)), w')"
    and b: "bus w' = bus ?w1 @
          [Published \<lparr>msg_type = ''mycroft.audio.play_sound'',
                      msg_data = [''uri'' \<mapsto> error_sound demo_env], msg_context = msg_context ?m1\<rparr>,
           Published \<lparr>msg_type = ''complete_intent_failure'',
                      msg_data = Map.empty, msg_context = msg_context ?m1\<rparr>] @
          final_resync demo_env ?s ?w1"
    by blast
  from h have "fst (handle_utterance demo_env (demo_message Map.empty) demo_world) =
     Inr (Some (None, msg_context ?m1))"
    by simp
  moreover from h b
  have "map msg_type (published (bus (snd (handle_utterance demo_env (demo_message Map.empty) demo_world)))) =
       [''mycroft.audio.play_sound'', ''complete_intent_failure'']
     \<and> length (bus (snd (handle_utterance demo_env (demo_message Map.empty) demo_world))) = 3"
    by (simp add: demo_world_def final_resync_def demo_session_def)
  ultimately show ?thesis by (simp add: demo_message_def)
qed

section \<open>C7: what is published for a match\<close>

text \<open>
  Claim C7. For a match with an intent type, exactly one event addressed to that intent
  type is published, whose data is the data of the original event merged with, and
  overridden by, the intent payload of the match; for a match without an intent type no
  further event is published.

  As stated this fails: before it builds the outbound data the handler stores the matched
  utterance under \<^verbatim>\<open>utterance\<close> in the event's data (line 315), so the outbound data has
  a field that is neither in the data of the inbound event nor in the payload. In the
  example below the inbound data has the one field \<^verbatim>\<open>utterances\<close>, the payload the one
  field \<^verbatim>\<open>room\<close>, and the event published to \<^verbatim>\<open>lights.skill:turn_on\<close> has
  \<^verbatim>\<open>utterance = "turn on the light"\<close>.
\<close>

theorem intent_event_data_counterexample:
  "map msg_type (published (bus (snd (handle_utterance demo_env
        (demo_message [''session_id'' \<mapsto> PStr ''s1'']) demo_world)))) = [''lights.skill:turn_on'']
   \<and> msg_data (hd (published (bus (snd (handle_utterance demo_env
        (demo_message [''session_id'' \<mapsto> PStr ''s1'']) demo_world))))) ''utterance'' =
       Some (PStr ''turn on the light'')
   \<and> (msg_data (demo_message [''session_id'' \<mapsto> PStr ''s1'']) ++ intent_data lights_match)
        ''utterance'' = None"
proof -
  let ?ps1 = "[''converse'', ''adapt'', ''common_qa'']"
  have s1: "sessions demo_world ''s1'' = Some (demo_session ''s1'' ?ps1)" "''s1'' \<noteq> ''default''"
    by (simp_all add: demo_world_def)
  have m1: "pipeline ((demo_session ''s1'' ?ps1)\<lparr>expiry_deadline := 1300\<rparr>) = ?ps1"
    by (simp add: demo_session_def)
  have "bus (snd (handle_utterance demo_env (demo_message [''session_id'' \<mapsto> PStr ''s1'']) demo_world)) =
          [Published \<lparr>msg_type = ''lights.skill:turn_on'',
               msg_data = (msg_data (demo_message
                 [''session_id'' \<mapsto> PStr ''s1'', ''lang'' \<mapsto> PStr ''en-us'',
                  ''session'' \<mapsto> PDict [(''session_id'', PStr ''s1''), (''lang'', PStr ''en-us'')]]))
                    (''utterance'' \<mapsto> PStr (utterance lights_match)) ++ intent_data lights_match,
               msg_context = reply_context demo_env (stamped_context lights_match (demo_message
                 [''session_id'' \<mapsto> PStr ''s1'', ''lang'' \<mapsto> PStr ''en-us'',
                  ''session'' \<mapsto> PDict [(''session_id'', PStr ''s1''), (''lang'', PStr ''en-us'')]]))\<rparr>]"
    unfolding handle_utterance_matched[OF prepare_demo_session[OF s1] match_demo_intent[OF m1]]
    by (simp add: emit_result_Some_bus lights_match_def final_resync_def demo_session_def
          demo_world_def)
  then show ?thesis
    by (simp add: lights_match_def demo_message_def map_add_def)
qed

text \<open>
  Claim C7, amended. For a match whose intent type is neither \<^verbatim>\<open>None\<close> nor the empty
  string, exactly one message is published, addressed to that intent type; its data is the
  data of the event, with the field \<^verbatim>\<open>utterance\<close> set to the matched utterance, merged with
  and overridden by the intent payload. For a match whose intent type is \<^verbatim>\<open>None\<close> or
  empty no message is published. In both cases the only other event is the resync
  broadcast that ends the handling in the default session.
\<close>

theorem intent_event_published:
  assumes "prepare e m w = Inr (lg, utts, sess, m1, w1)"
    and "match_utterance e sess utts lg m1 w1 = (Inr (Some r), n, m2, w2)"
  shows "\<exists>w'. handle_utterance e m w = (Inr (Some (Some r, stamped_context r m2)), w')
     \<and> (\<forall>t. intent_type r = Some t \<and> t \<noteq> [] \<longrightarrow>
          bus w' = bus w2 @
            [Published \<lparr>msg_type = t,
               msg_data = (msg_data m2)(''utterance'' \<mapsto> PStr (utterance r)) ++ intent_data r,
               msg_context = reply_context e (stamped_context r m2)\<rparr>] @
            final_resync e sess w'
        \<and> map msg_type (published (drop (length (bus w2)) (bus w'))) = [t])
     \<and> (intent_type r = None \<or> intent_type r = Some [] \<longrightarrow>
          bus w' = bus w2 @ final_resync e sess w'
        \<and> published (drop (length (bus w2)) (bus w')) = [])"
proof -
  let ?w' = "snd (emit_result e sess (Some r) m2 w2)"
  from handle_utterance_matched[OF assms]
  have h: "handle_utterance e m w = (Inr (Some (Some r, stamped_context r m2)), ?w')"
    by (simp add: emit_result_Some_fst)
  have yes: "bus ?w' = bus w2 @
            [Published \<lparr>msg_type = t,
               msg_data = (msg_data m2)(''utterance'' \<mapsto> PStr (utterance r)) ++ intent_data r,
               msg_context = reply_context e (stamped_context r m2)\<rparr>] @
            final_resync e sess ?w'
        \<and> map msg_type (published (drop (length (bus w2)) (bus ?w'))) = [t]"
    if "intent_type r = Some t \<and> t \<noteq> []" for t
  proof -
    from that have b: "bus ?w' = bus w2 @
            [Published \<lparr>msg_type = t,
               msg_data = (msg_data m2)(''utterance'' \<mapsto> PStr (utterance r)) ++ intent_data r,
               msg_context = reply_context e (stamped_context r m2)\<rparr>] @
            final_resync e sess ?w'"
      using emit_result_Some_bus[of e sess r m2 w2] by simp
    have "drop (length (bus w2)) (bus ?w') =
            [Published \<lparr>msg_type = t,
               msg_data = (msg_data m2)(''utterance'' \<mapsto> PStr (utterance r)) ++ intent_data r,
               msg_context = reply_context e (stamped_context r m2)\<rparr>] @
            final_resync e sess ?w'"
      by (subst b) simp
    then have "map msg_type (published (drop (length (bus w2)) (bus ?w'))) = [t]"
      by (simp add: published_final_resync)
    with b show ?thesis by simp
  qed
  have no: "bus ?w' = bus w2 @ final_resync e sess ?w'
        \<and> published (drop (length (bus w2)) (bus ?w')) = []"
    if "intent_type r = None \<or> intent_type r = Some []"
  proof -
    from that have b: "bus ?w' = bus w2 @ final_resync e sess ?w'"
      using emit_result_Some_bus[of e sess r m2 w2] by auto
    have "drop (length (bus w2)) (bus ?w') = final_resync e sess ?w'"
      by (subst b) simp
    then have "published (drop (length (bus w2)) (bus ?w')) = []"
      by (simp add: published_final_resync)
    with b show ?thesis by simp
  qed
  show ?thesis
    by (rule exI[of _ ?w'], intro conjI allI impI) (use h yes no in blast)+
qed

theorem intent_event_published_witness:
  "(case fst (handle_utterance demo_env (demo_message [''session_id'' \<mapsto> PStr ''s1'']) demo_world) of
      Inr (Some (mt, ctx)) \<Rightarrow> mt = Some lights_match \<and> ctx ''skill_id'' = Some (PStr ''lights.skill'')
    | _ \<Rightarrow> False)
   \<and> map msg_type (published (bus (snd (handle_utterance demo_env
        (demo_message [''session_id'' \<mapsto> PStr ''s1'']) demo_world)))) = [''lights.skill:turn_on'']
   \<and> msg_data (hd (published (bus (snd (handle_utterance demo_env
        (demo_message [''session_id'' \<mapsto> PStr ''s1'']) demo_world))))) ''room'' = Some (PStr ''kitchen'')
   \<and> published (bus (snd (handle_utterance demo_env
        (demo_message [''session_id'' \<mapsto> PStr ''s4'']) demo_world))) = []"
proof -
  let ?ps1 = "[''converse'', ''adapt'', ''common_qa'']"
  let ?ps4 = "[''converse'', ''padacioso_high'']"
  have s1: "sessions demo_world ''s1'' = Some (demo_session ''s1'' ?ps1)" "''s1'' \<noteq> ''default''"
    and s4: "sessions demo_world ''s4'' = Some (demo_session ''s4'' ?ps4)" "''s4'' \<noteq> ''default''"
    by (simp_all add: demo_world_def)
  have m1: "pipeline ((demo_session ''s1'' ?ps1)\<lparr>expiry_deadline := 1300\<rparr>) = ?ps1"
    and m4: "pipeline ((demo_session ''s4'' ?ps4)\<lparr>expiry_deadline := 1300\<rparr>) = ?ps4"
    by (simp_all add: demo_session_def)
  from intent_event_published[OF prepare_demo_session[OF s1] match_demo_intent[OF m1]]
  obtain w' where
    h: "handle_utterance demo_env (demo_message [''session_id'' \<mapsto> PStr ''s1'']) demo_world =
          (Inr (Some (Some lights_match,
             stamped_context lights_match
               (demo_message
                 [''session_id'' \<mapsto> PStr ''s1'', ''lang'' \<mapsto> PStr ''en-us'',
                  ''session'' \<mapsto> PDict [(''session_id'', PStr ''s1''), (''lang'', PStr ''en-us'')]]))), w')"
    and b: "\<forall>t. intent_type lights_match = Some t \<and> t \<noteq> [] \<longrightarrow>
          map msg_type (published (drop (length (bus (demo_world\<lparr>sessions := (sessions demo_world)(''s1'' \<mapsto>
            (demo_session ''s1'' ?ps1)\<lparr>expiry_deadline := 1300\<rparr>)\<rparr>))) (bus w'))) = [t]
          \<and> bus w' = bus (demo_world\<lparr>sessions := (sessions demo_world)(''s1'' \<mapsto>
            (demo_session ''s1'' ?ps1)\<lparr>expiry_deadline := 1300\<rparr>)\<rparr>) @
            [Published \<lparr>msg_type = t,
               msg_data = (msg_data (demo_message
                 [''session_id'' \<mapsto> PStr ''s1'', ''lang'' \<mapsto> PStr ''en-us'',
                  ''session'' \<mapsto> PDict [(''session_id'', PStr ''s1''), (''lang'', PStr ''en-us'')]]))
                    (''utterance'' \<mapsto> PStr (utterance lights_match)) ++ intent_data lights_match,
               msg_context = reply_context demo_env (stamped_context lights_match (demo_message
                 [''session_id'' \<mapsto> PStr ''s1'', ''lang'' \<mapsto> PStr ''en-us'',
                  ''session'' \<mapsto> PDict [(''session_id'', PStr ''s1''), (''lang'', PStr ''en-us'')]]))\<rparr>] @
            final_resync demo_env ((demo_session ''s1'' ?ps1)\<lparr>expiry_deadline := 1300\<rparr>) w'"
    by blast
  from h have a1: "(case fst (handle_utterance demo_env (demo_message [''session_id'' \<mapsto> PStr ''s1'']) demo_world) of
      Inr (Some (mt, ctx)) \<Rightarrow> mt = Some lights_match \<and> ctx ''skill_id'' = Some (PStr ''lights.skill'')
    | _ \<Rightarrow> False)"
    by (simp add: stamped_context_def lights_match_def)
  from b have "bus w' =
            [Published \<lparr>msg_type = ''lights.skill:turn_on'',
               msg_data = (msg_data (demo_message
                 [''session_id'' \<mapsto> PStr ''s1'', ''lang'' \<mapsto> PStr ''en-us'',
                  ''session'' \<mapsto> PDict [(''session_id'', PStr ''s1''), (''lang'', PStr ''en-us'')]]))
                    (''utterance'' \<mapsto> PStr (utterance lights_match)) ++ intent_data lights_match,
               msg_context = reply_context demo_env (stamped_context lights_match (demo_message
                 [''session_id'' \<mapsto> PStr ''s1'', ''lang'' \<mapsto> PStr ''en-us'',
                  ''session'' \<mapsto> PDict [(''session_id'', PStr ''s1''), (''lang'', PStr ''en-us'')]]))\<rparr>]"
    by (simp add: lights_match_def demo_world_def final_resync_def demo_session_def)
  with h have a2: "map msg_type (published (bus (snd (handle_utterance demo_env
        (demo_message [''session_id'' \<mapsto> PStr ''s1'']) demo_world)))) = [''lights.skill:turn_on'']
     \<and> msg_data (hd (published (bus (snd (handle_utterance demo_env
        (demo_message [''session_id'' \<mapsto> PStr ''s1'']) demo_world))))) ''room'' = Some (PStr ''kitchen'')"
    by (simp add: lights_match_def)
  from intent_event_published[OF prepare_demo_session[OF s4] match_demo_handled[OF m4]]
  obtain w4 where
    h4: "snd (handle_utterance demo_env (demo_message [''session_id'' \<mapsto> PStr ''s4'']) demo_world) = w4"
    and b4: "intent_type chat_match = None \<or> intent_type chat_match = Some [] \<longrightarrow>
          bus w4 = bus (demo_world\<lparr>sessions := (sessions demo_world)(''s4'' \<mapsto>
            (demo_session ''s4'' ?ps4)\<lparr>expiry_deadline := 1300\<rparr>)\<rparr>) @
            final_resync demo_env ((demo_session ''s4'' ?ps4)\<lparr>expiry_deadline := 1300\<rparr>) w4"
    by force
  from b4 have "bus w4 = []"
    by (simp add: chat_match_def demo_world_def final_resync_def demo_session_def)
  with h4 have a3: "published (bus (snd (handle_utterance demo_env
        (demo_message [''session_id'' \<mapsto> PStr ''s4'']) demo_world))) = []"
    by simp
  from a1 a2 a3 show ?thesis by simp
qed

end
